theory Spec2Isabelle
  imports Complex_Main
begin

section \<open>Numbers\<close>

text \<open>
  The program computes with JavaScript numbers. Finite numbers are modelled as
  \<^typ>\<open>real\<close> (no rounding error). The one division of the program whose divisor
  can be zero or absent is \<open>elapsed / duration\<close>; its result is kept in the type
  \<open>jsnum\<close>, which has the three non-finite values of a JavaScript number.
  A position with a \<open>NaN\<close> coordinate has no counterpart in \<^typ>\<open>real\<close>: a
  function that would return one returns \<open>Inl NonFinite\<close> instead.
  \<open>Inl TypeError\<close> is the exception JavaScript throws on reading a property of
  \<open>undefined\<close>.
\<close>

datatype error = TypeError | NonFinite

datatype jsnum = Fin real | PosInf | NegInf | NaN

text \<open>\<open>a / b\<close> for a finite \<open>a\<close>; \<open>b\<close> is \<open>None\<close> when the property read is \<open>undefined\<close>.\<close>

definition js_div :: "real \<Rightarrow> real option \<Rightarrow> jsnum" where
  "js_div a b =
     (case b of
        None \<Rightarrow> NaN
      | Some d \<Rightarrow>
          if d \<noteq> 0 then Fin (a / d)
          else if a > 0 then PosInf
          else if a < 0 then NegInf
          else NaN)"

text \<open>\<open>p <= 1\<close> and \<open>p >= 1\<close>: every comparison with \<open>NaN\<close> is false.\<close>

fun js_le_one :: "jsnum \<Rightarrow> bool" where
  "js_le_one (Fin r) = (r \<le> 1)"
| "js_le_one PosInf = False"
| "js_le_one NegInf = True"
| "js_le_one NaN = False"

fun js_ge_one :: "jsnum \<Rightarrow> bool" where
  "js_ge_one (Fin r) = (r \<ge> 1)"
| "js_ge_one PosInf = True"
| "js_ge_one NegInf = False"
| "js_ge_one NaN = False"

text \<open>\<open>Math.min(1, Math.max(0, progress))\<close>; \<open>None\<close> is \<open>NaN\<close>.\<close>

fun clamp01 :: "jsnum \<Rightarrow> real option" where
  "clamp01 (Fin r) = Some (min 1 (max 0 r))"
| "clamp01 PosInf = Some 1"
| "clamp01 NegInf = Some 0"
| "clamp01 NaN = None"

text \<open>\<open>Math.round\<close>: the nearest integer, a half rounded towards plus infinity.\<close>

definition js_round :: "real \<Rightarrow> int" where
  "js_round v = \<lfloor>v + 1 / 2\<rfloor>"

text \<open>\<open>arr[i]\<close> for an integer \<open>i\<close>: \<open>undefined\<close> (here \<open>None\<close>) outside the array.\<close>

definition js_index :: "'a list \<Rightarrow> int \<Rightarrow> 'a option" where
  "js_index xs i = (if 0 \<le> i \<and> i < int (length xs) then Some (xs ! nat i) else None)"

section \<open>Configuration\<close>

text \<open>
  A position \<open>{x, y}\<close> and a control point \<open>[x, y]\<close> are pairs. The parameters of a
  track shape are an object whose properties depend on the shape; a property that is
  not there is \<open>None\<close>. \<open>pathPoints\<close> is the property \<open>params.points\<close>.
\<close>

type_synonym position = "real \<times> real"

record shape_params =
  startX :: "real option"
  startY :: "real option"
  endX :: "real option"
  endY :: "real option"
  amplitude :: "real option"
  frequency :: "real option"
  centerX :: "real option"
  centerY :: "real option"
  radius :: "real option"
  pathPoints :: "position list option"
  duration :: "real option"

record click_sequence =
  cs_id :: string
  positions :: "position list"

record track_shape =
  ts_id :: string
  shape :: string
  ts_startX :: real
  ts_startY :: real
  params :: shape_params

text \<open>\<open>pointSystem\<close> is the object \<open>TRIAL_CONFIG.points\<close>.\<close>

record point_system =
  maxClickPoints :: real
  maxReactionTime :: real
  maxPointsPerSample :: real
  clickPerfectDist :: real
  clickGreatDist :: real
  clickPerfectTime :: real
  clickGreatTime :: real
  trackPerfectPct :: real
  trackGreatPct :: real
  trackOkPct :: real

record config =
  clickSequences :: "click_sequence list"
  trackShapes :: "track_shape list"
  totalTrials :: nat
  targetRadius :: real
  trackingMaxDistance :: real
  samplingRate :: real
  pointSystem :: point_system

definition no_params :: shape_params where
  "no_params =
     \<lparr>startX = None, startY = None, endX = None, endY = None, amplitude = None,
      frequency = None, centerX = None, centerY = None, radius = None,
      pathPoints = None, duration = None\<rparr>"

definition track_line :: track_shape where
  "track_line =
     \<lparr>ts_id = ''track_line'', shape = ''line'', ts_startX = 0.1, ts_startY = 0.5,
      params = no_params\<lparr>endX := Some 0.9, endY := Some 0.5, duration := Some 3000\<rparr>\<rparr>"

definition track_wave :: track_shape where
  "track_wave =
     \<lparr>ts_id = ''track_wave'', shape = ''wave'', ts_startX = 0.1, ts_startY = 0.5,
      params = no_params\<lparr>amplitude := Some 0.15, frequency := Some 2, endX := Some 0.9,
                         duration := Some 4000\<rparr>\<rparr>"

definition track_circle :: track_shape where
  "track_circle =
     \<lparr>ts_id = ''track_circle'', shape = ''circle'', ts_startX = 0.5, ts_startY = 0.25,
      params = no_params\<lparr>centerX := Some 0.5, centerY := Some 0.5, radius := Some 0.25,
                         duration := Some 4000\<rparr>\<rparr>"

definition track_blob :: track_shape where
  "track_blob =
     \<lparr>ts_id = ''track_blob'', shape = ''blob'', ts_startX = 0.3, ts_startY = 0.3,
      params = no_params\<lparr>pathPoints := Some [(0.3, 0.3), (0.7, 0.25), (0.75, 0.7), (0.25, 0.65)],
                         duration := Some 5000\<rparr>\<rparr>"

definition track_zigzag :: track_shape where
  "track_zigzag =
     \<lparr>ts_id = ''track_zigzag'', shape = ''zigzag'', ts_startX = 0.1, ts_startY = 0.3,
      params = no_params\<lparr>pathPoints := Some [(0.1, 0.3), (0.3, 0.7), (0.5, 0.3), (0.7, 0.7), (0.9, 0.3)],
                         duration := Some 4500\<rparr>\<rparr>"

definition TRIAL_CONFIG :: config where
  "TRIAL_CONFIG =
     \<lparr>clickSequences =
        [\<lparr>cs_id = ''seq_1'', positions = [(0.2, 0.3), (0.4, 0.5), (0.6, 0.3), (0.8, 0.5), (0.5, 0.7)]\<rparr>,
         \<lparr>cs_id = ''seq_2'', positions = [(0.5, 0.2), (0.3, 0.4), (0.7, 0.4), (0.3, 0.7), (0.7, 0.7)]\<rparr>,
         \<lparr>cs_id = ''seq_3'', positions = [(0.15, 0.5), (0.35, 0.3), (0.5, 0.6), (0.65, 0.3), (0.85, 0.5)]\<rparr>,
         \<lparr>cs_id = ''seq_4'', positions = [(0.8, 0.2), (0.6, 0.4), (0.4, 0.2), (0.2, 0.4), (0.5, 0.75)]\<rparr>,
         \<lparr>cs_id = ''seq_5'', positions = [(0.5, 0.15), (0.25, 0.35), (0.75, 0.35), (0.35, 0.65), (0.65, 0.65)]\<rparr>],
      trackShapes = [track_line, track_wave, track_circle, track_blob, track_zigzag],
      totalTrials = 20,
      targetRadius = 40,
      trackingMaxDistance = 80,
      samplingRate = 16,
      pointSystem =
        \<lparr>maxClickPoints = 400, maxReactionTime = 1000, maxPointsPerSample = 5,
         clickPerfectDist = 10, clickGreatDist = 25, clickPerfectTime = 200,
         clickGreatTime = 400, trackPerfectPct = 0.9, trackGreatPct = 0.7,
         trackOkPct = 0.5\<rparr>\<rparr>"

section \<open>Shape path calculators\<close>

definition catmullRom :: "real \<Rightarrow> real \<Rightarrow> real \<Rightarrow> real \<Rightarrow> real \<Rightarrow> real" where
  "catmullRom p0 p1 p2 p3 t =
     (let t2 = t * t; t3 = t2 * t
      in 0.5 * ((2 * p1) + (- p0 + p2) * t + (2 * p0 - 5 * p1 + 4 * p2 - p3) * t2
                + (- p0 + 3 * p1 - 3 * p2 + p3) * t3))"

text \<open>
  The \<open>blob\<close>/\<open>zigzag\<close> case once \<open>params.points\<close> is an array and \<open>t\<close> is a number.
  Reading \<open>[0]\<close> of a control point that is \<open>undefined\<close> throws.
\<close>

definition polyline_position ::
  "string \<Rightarrow> position list \<Rightarrow> real \<Rightarrow> real \<Rightarrow> real \<Rightarrow> error + position" where
  "polyline_position shp pts t canvasWidth canvasHeight =
     (let totalSegments = int (length pts) - 1;
          segmentProgress = t * real_of_int totalSegments;
          segmentIndex = min \<lfloor>segmentProgress\<rfloor> (totalSegments - 1);
          localT = segmentProgress - real_of_int segmentIndex;
          p1 = js_index pts segmentIndex;
          p2 = js_index pts (segmentIndex + 1)
      in if shp = ''blob'' \<and> length pts \<ge> 4 then
           (let p0 = js_index pts (max 0 (segmentIndex - 1));
                p3 = js_index pts (min (int (length pts) - 1) (segmentIndex + 2))
            in case (p0, p1, p2, p3) of
                 (Some a, Some b, Some c, Some d) \<Rightarrow>
                   Inr (catmullRom (fst a) (fst b) (fst c) (fst d) localT * canvasWidth,
                        catmullRom (snd a) (snd b) (snd c) (snd d) localT * canvasHeight)
               | _ \<Rightarrow> Inl TypeError)
         else
           (case (p1, p2) of
              (Some b, Some c) \<Rightarrow>
                Inr ((fst b + (fst c - fst b) * localT) * canvasWidth,
                     (snd b + (snd c - snd b) * localT) * canvasHeight)
            | _ \<Rightarrow> Inl TypeError))"

text \<open>
  \<open>getPositionOnPath\<close>. A shape parameter that is missing reads as \<open>undefined\<close> and
  makes the coordinate computed from it \<open>NaN\<close>, as a \<open>NaN\<close> progress does: the result
  is then \<open>Inl NonFinite\<close>. With a \<open>NaN\<close> progress the polyline case indexes the
  array with \<open>NaN\<close>, gets \<open>undefined\<close> and throws.
\<close>

definition getPositionOnPath ::
  "string \<Rightarrow> shape_params \<Rightarrow> jsnum \<Rightarrow> real \<Rightarrow> real \<Rightarrow> error + position" where
  "getPositionOnPath shp ps progress canvasWidth canvasHeight =
     (let t = clamp01 progress
      in if shp = ''line'' then
           (case (t, startX ps, endX ps, startY ps, endY ps) of
              (Some t, Some sx, Some ex, Some sy, Some ey) \<Rightarrow>
                Inr ((sx + (ex - sx) * t) * canvasWidth, (sy + (ey - sy) * t) * canvasHeight)
            | _ \<Rightarrow> Inl NonFinite)
         else if shp = ''wave'' then
           (case (t, startX ps, endX ps, startY ps, frequency ps, amplitude ps) of
              (Some t, Some sx, Some ex, Some baseY, Some f, Some a) \<Rightarrow>
                Inr ((sx + (ex - sx) * t) * canvasWidth,
                     (baseY + sin (t * pi * 2 * f) * a) * canvasHeight)
            | _ \<Rightarrow> Inl NonFinite)
         else if shp = ''circle'' then
           (case (t, centerX ps, centerY ps, radius ps) of
              (Some t, Some cx, Some cy, Some r) \<Rightarrow>
                (let angle = t * pi * 2 - pi / 2
                 in Inr ((cx + cos angle * r) * canvasWidth, (cy + sin angle * r) * canvasHeight))
            | _ \<Rightarrow> Inl NonFinite)
         else if shp = ''blob'' \<or> shp = ''zigzag'' then
           (case (pathPoints ps, t) of
              (Some pts, Some t) \<Rightarrow> polyline_position shp pts t canvasWidth canvasHeight
            | _ \<Rightarrow> Inl TypeError)
         else Inr (canvasWidth / 2, canvasHeight / 2))"

section \<open>Continuous point calculation\<close>

record click_score =
  points :: int
  grade :: string
  accuracyFactor :: real
  timeFactor :: real

definition calculateClickPoints :: "real \<Rightarrow> real \<Rightarrow> click_score" where
  "calculateClickPoints distance reactionTime =
     (let pts = pointSystem TRIAL_CONFIG;
          radius = targetRadius TRIAL_CONFIG
      in if distance > radius then
           \<lparr>points = 0, grade = ''MISS'', accuracyFactor = 0, timeFactor = 0\<rparr>
         else
           (let af = max 0 (1 - distance / radius);
                tf = max 0 (1 - reactionTime / maxReactionTime pts);
                p = js_round (maxClickPoints pts * af * tf);
                g = (if distance \<le> clickPerfectDist pts \<and> reactionTime \<le> clickPerfectTime pts
                     then ''PERFECT''
                     else if distance \<le> clickGreatDist pts \<and> reactionTime \<le> clickGreatTime pts
                     then ''GREAT''
                     else ''OK'')
            in \<lparr>points = p, grade = g, accuracyFactor = af, timeFactor = tf\<rparr>))"

definition calculateTrackingSamplePoints :: "real \<Rightarrow> bool \<Rightarrow> real" where
  "calculateTrackingSamplePoints distance isClicking =
     (let pts = pointSystem TRIAL_CONFIG;
          maxDist = trackingMaxDistance TRIAL_CONFIG
      in if \<not> isClicking then 0
         else (let distanceFactor = max 0 (1 - distance / maxDist)
               in maxPointsPerSample pts * distanceFactor))"

definition getTrackingGrade :: "real \<Rightarrow> string" where
  "getTrackingGrade accuracy =
     (let pts = pointSystem TRIAL_CONFIG
      in if accuracy \<ge> trackPerfectPct pts then ''PERFECT''
         else if accuracy \<ge> trackGreatPct pts then ''GREAT''
         else if accuracy \<ge> trackOkPct pts then ''OK''
         else ''POOR'')"

section \<open>The game component\<close>

text \<open>
  The state of the \<open>OsuExperiment\<close> component: its state cells and ref cells, the
  closures of the tracking animations that were started, and the pending
  \<open>setTimeout(nextTrial, 100)\<close> calls. Rendering (floating feedback, cursor display) and
  wall-clock timestamps are left out. An event handler runs to completion, reads the clock
  once, and sees the state as of the last completed event.

  A trial instance is a copy of a catalog entry with an \<open>instanceId\<close>; the entry is \<open>None\<close>
  when the random index selected nothing (the spread of \<open>undefined\<close>).
\<close>

datatype game_state = Intro | Countdown | Playing | Results

datatype trial_def = ClickSequence click_sequence | Track track_shape

record trial =
  entry :: "trial_def option"
  instanceId :: nat

record track_sample =
  sm_time :: real
  sm_progress :: jsnum
  sm_targetX :: real
  sm_targetY :: real
  sm_cursorX :: real
  sm_cursorY :: real
  sm_distance :: real
  sm_isClicking :: bool
  sm_samplePoints :: real

record click_data =
  cd_trialId :: string
  cd_instanceId :: nat
  cd_clickIndex :: nat
  cd_reactionTime :: real
  cd_distance :: real
  cd_points :: int
  cd_grade :: string
  cd_targetX :: real
  cd_targetY :: real
  cd_clickX :: real
  cd_clickY :: real

text \<open>
  \<open>td_samples\<close> is a reference: the record holds the \<open>samples\<close> array of the tracking
  animation with this number, not a copy of it.
\<close>

record track_data =
  td_trialId :: string
  td_instanceId :: nat
  td_shape :: string
  td_duration :: "real option"
  td_accuracy :: real
  td_averageDistance :: real
  td_points :: int
  td_grade :: string
  td_samples :: nat

datatype trial_datum = ClickData click_data | TrackData track_data

text \<open>
  One call of \<open>startTrackingAnimation\<close>: its local variables, the \<open>currentTrialIndex\<close>
  its \<open>nextTrial\<close> closes over, and whether its interval and its animation frame are
  still scheduled.
\<close>

record tracker =
  tk_trial :: track_shape
  tk_instanceId :: nat
  tk_startTime :: real
  tk_samples :: "track_sample list"
  tk_lastTargetPos :: position
  tk_accumulatedPoints :: real
  tk_trialIndex :: nat
  tk_interval :: bool
  tk_frame :: bool

record state =
  gameState :: game_state
  trials :: "trial list"
  currentTrialIndex :: nat
  trialData :: "trial_datum list"
  totalScore :: int
  countdown :: nat
  targetPosition :: position
  cursorRef :: position
  isClickingRef :: bool
  trackingStarted :: bool
  trialStartTime :: real
  currentClickIndex :: nat
  clickStartTime :: real
  trackingPoints :: int
  canvasSize :: "real \<times> real"
  trackers :: "tracker list"
  sampleIntervalRef :: "nat option"
  advanceTimers :: "nat list"

definition initial_state :: state where
  "initial_state =
     \<lparr>gameState = Intro, trials = [], currentTrialIndex = 0, trialData = [], totalScore = 0,
      countdown = 3, targetPosition = (0, 0), cursorRef = (0, 0), isClickingRef = False,
      trackingStarted = False, trialStartTime = 0, currentClickIndex = 0, clickStartTime = 0,
      trackingPoints = 0, canvasSize = (800, 600), trackers = [], sampleIntervalRef = None,
      advanceTimers = []\<rparr>"

text \<open>
  \<open>initializeTrials\<close>, with the catalog it reads from \<open>TRIAL_CONFIG\<close> and the values of
  \<open>Math.random()\<close> (the \<open>i\<close>-th call returns \<open>random i\<close>) as parameters.
\<close>

text \<open>The track shape with its start position copied into its parameters.\<close>

definition withStart :: "track_shape \<Rightarrow> track_shape" where
  "withStart s = s\<lparr>params := (params s)\<lparr>startX := Some (ts_startX s),
                                          startY := Some (ts_startY s)\<rparr>\<rparr>"

definition allTrialTypes :: "config \<Rightarrow> trial_def list" where
  "allTrialTypes cfg =
     map ClickSequence (clickSequences cfg) @ map (\<lambda>s. Track (withStart s)) (trackShapes cfg)"

definition initializeTrials :: "config \<Rightarrow> (nat \<Rightarrow> real) \<Rightarrow> state \<Rightarrow> state" where
  "initializeTrials cfg random s =
     (let selected =
            map (\<lambda>i. \<lparr>entry = js_index (allTrialTypes cfg)
                                 \<lfloor>random i * real (length (allTrialTypes cfg))\<rfloor>,
                       instanceId = i\<rparr>)
                [0..<totalTrials cfg]
      in s\<lparr>trials := selected, currentTrialIndex := 0, trialData := [], totalScore := 0\<rparr>)"

definition startGame :: "config \<Rightarrow> (nat \<Rightarrow> real) \<Rightarrow> state \<Rightarrow> state" where
  "startGame cfg random s = (initializeTrials cfg random s)\<lparr>gameState := Countdown, countdown := 3\<rparr>"

definition startTrial :: "real \<Rightarrow> state \<Rightarrow> error + state" where
  "startTrial now s =
     (case js_index (trials s) (int (currentTrialIndex s)) of
        None \<Rightarrow> Inr s
      | Some trial \<Rightarrow>
          (let s1 = s\<lparr>trialStartTime := now, trackingStarted := False, isClickingRef := False,
                      trackingPoints := 0\<rparr>
           in case entry trial of
                Some (ClickSequence cs) \<Rightarrow>
                  (case positions cs of
                     [] \<Rightarrow> Inl TypeError
                   | firstPos # _ \<Rightarrow>
                       Inr (s1\<lparr>currentClickIndex := 0,
                               targetPosition := (fst firstPos * fst (canvasSize s),
                                                  snd firstPos * snd (canvasSize s)),
                               clickStartTime := now\<rparr>))
              | Some (Track ts) \<Rightarrow>
                  (case getPositionOnPath (shape ts) (params ts) (Fin 0)
                          (fst (canvasSize s)) (snd (canvasSize s)) of
                     Inl e \<Rightarrow> Inl e
                   | Inr startPos \<Rightarrow> Inr (s1\<lparr>targetPosition := startPos\<rparr>))
              | None \<Rightarrow>
                  Inr (s1\<lparr>targetPosition := (fst (canvasSize s) / 2, snd (canvasSize s) / 2)\<rparr>)))"

text \<open>The effect that starts a trial when the index or the game state has changed.\<close>

definition startTrialEffect :: "real \<Rightarrow> state \<Rightarrow> error + state" where
  "startTrialEffect now s =
     (if gameState s = Playing \<and> length (trials s) > 0 then startTrial now s else Inr s)"

text \<open>The countdown timer and the effect that follows it when the count reaches 0.\<close>

definition countdownTick :: "real \<Rightarrow> state \<Rightarrow> error + state" where
  "countdownTick now s =
     (if gameState s = Countdown \<and> countdown s > 0 then
        (let s1 = s\<lparr>countdown := countdown s - 1\<rparr>
         in if countdown s1 = 0 then startTrialEffect now (s1\<lparr>gameState := Playing\<rparr>)
            else Inr s1)
      else Inr s)"

text \<open>\<open>nextTrial\<close>, run by the oldest pending timeout; \<open>c\<close> is the index it closed over.\<close>

definition nextTrial :: "real \<Rightarrow> state \<Rightarrow> error + state" where
  "nextTrial now s =
     (case advanceTimers s of
        [] \<Rightarrow> Inr s
      | c # rest \<Rightarrow>
          (let s1 = s\<lparr>advanceTimers := rest\<rparr>
           in if int c < int (length (trials s)) - 1 then
                startTrialEffect now (s1\<lparr>currentTrialIndex := currentTrialIndex s + 1\<rparr>)
              else Inr (s1\<lparr>gameState := Results\<rparr>)))"

definition startTrackingAnimation :: "track_shape \<Rightarrow> nat \<Rightarrow> real \<Rightarrow> state \<Rightarrow> state" where
  "startTrackingAnimation ts iid now s =
     s\<lparr>trackers := trackers s @
          [\<lparr>tk_trial = ts, tk_instanceId = iid, tk_startTime = now, tk_samples = [],
            tk_lastTargetPos = targetPosition s, tk_accumulatedPoints = 0,
            tk_trialIndex = currentTrialIndex s, tk_interval = True, tk_frame = True\<rparr>],
       sampleIntervalRef := Some (length (trackers s))\<rparr>"

definition handlePointerDown :: "real \<Rightarrow> real \<Rightarrow> real \<Rightarrow> state \<Rightarrow> state" where
  "handlePointerDown x y now s =
     (if gameState s \<noteq> Playing then s
      else case js_index (trials s) (int (currentTrialIndex s)) of
        None \<Rightarrow> s
      | Some trial \<Rightarrow>
          (let s1 = s\<lparr>isClickingRef := True\<rparr>
           in case entry trial of
                Some (ClickSequence cs) \<Rightarrow>
                  (let dist = sqrt ((x - fst (targetPosition s)) ^ 2 + (y - snd (targetPosition s)) ^ 2);
                       reactionTime = now - clickStartTime s;
                       sc = calculateClickPoints dist reactionTime;
                       clickData =
                         \<lparr>cd_trialId = cs_id cs, cd_instanceId = instanceId trial,
                          cd_clickIndex = currentClickIndex s, cd_reactionTime = reactionTime,
                          cd_distance = dist, cd_points = points sc, cd_grade = grade sc,
                          cd_targetX = fst (targetPosition s), cd_targetY = snd (targetPosition s),
                          cd_clickX = x, cd_clickY = y\<rparr>;
                       s2 = s1\<lparr>totalScore := totalScore s + points sc,
                               trialData := trialData s @ [ClickData clickData]\<rparr>
                   in if int (currentClickIndex s) < int (length (positions cs)) - 1 then
                        (let nextIndex = currentClickIndex s + 1;
                             nextPos = positions cs ! nextIndex
                         in s2\<lparr>currentClickIndex := nextIndex,
                               targetPosition := (fst nextPos * fst (canvasSize s),
                                                  snd nextPos * snd (canvasSize s)),
                               clickStartTime := now\<rparr>)
                      else s2\<lparr>advanceTimers := advanceTimers s @ [currentTrialIndex s]\<rparr>)
              | Some (Track ts) \<Rightarrow>
                  (if \<not> trackingStarted s then
                     startTrackingAnimation ts (instanceId trial) now
                       (s1\<lparr>trackingStarted := True, trialStartTime := now\<rparr>)
                   else s1)
              | None \<Rightarrow> s1))"

definition handlePointerUp :: "state \<Rightarrow> state" where
  "handlePointerUp s = s\<lparr>isClickingRef := False\<rparr>"

definition handlePointerMove :: "real \<Rightarrow> real \<Rightarrow> state \<Rightarrow> state" where
  "handlePointerMove x y s = s\<lparr>cursorRef := (x, y)\<rparr>"

text \<open>The interval callback of tracking animation \<open>k\<close>.\<close>

definition sampleTick :: "nat \<Rightarrow> real \<Rightarrow> state \<Rightarrow> error + state" where
  "sampleTick k now s =
     (case js_index (trackers s) (int k) of
        None \<Rightarrow> Inr s
      | Some tk \<Rightarrow>
          if \<not> tk_interval tk then Inr s
          else
            (let elapsed = now - tk_startTime tk;
                 progress = js_div elapsed (duration (params (tk_trial tk)))
             in if js_le_one progress then
                  (case getPositionOnPath (shape (tk_trial tk)) (params (tk_trial tk)) progress
                          (fst (canvasSize s)) (snd (canvasSize s)) of
                     Inl e \<Rightarrow> Inl e
                   | Inr targetPos \<Rightarrow>
                       (let cursorPos = cursorRef s;
                            distance = sqrt ((fst cursorPos - fst targetPos) ^ 2 +
                                             (snd cursorPos - snd targetPos) ^ 2);
                            samplePoints = calculateTrackingSamplePoints distance (isClickingRef s);
                            acc = tk_accumulatedPoints tk + samplePoints;
                            sample =
                              \<lparr>sm_time = elapsed, sm_progress = progress,
                               sm_targetX = fst targetPos, sm_targetY = snd targetPos,
                               sm_cursorX = fst cursorPos, sm_cursorY = snd cursorPos,
                               sm_distance = distance, sm_isClicking = isClickingRef s,
                               sm_samplePoints = samplePoints\<rparr>
                        in Inr (s\<lparr>trackers := (trackers s)
                                    [k := tk\<lparr>tk_lastTargetPos := targetPos,
                                             tk_accumulatedPoints := acc,
                                             tk_samples := tk_samples tk @ [sample]\<rparr>],
                                  trackingPoints := js_round acc\<rparr>)))
                else Inr s))"

text \<open>\<open>clearInterval(sampleIntervalRef.current)\<close>: the interval started last.\<close>

definition clearSampleInterval :: "state \<Rightarrow> state" where
  "clearSampleInterval s =
     (case sampleIntervalRef s of
        None \<Rightarrow> s
      | Some j \<Rightarrow>
          if j < length (trackers s)
          then s\<lparr>trackers := (trackers s)[j := (trackers s ! j)\<lparr>tk_interval := False\<rparr>]\<rparr>
          else s)"

definition sampleAccuracy :: "track_sample list \<Rightarrow> real" where
  "sampleAccuracy samples =
     (let clickingSamples = filter sm_isClicking samples
      in if length samples > 0 then real (length clickingSamples) / real (length samples) else 0)"

definition sampleAverageDistance :: "track_sample list \<Rightarrow> real" where
  "sampleAverageDistance samples =
     (if length samples > 0
      then foldl (\<lambda>sum sm. sum + sm_distance sm) 0 samples / real (length samples)
      else 0)"

text \<open>The animation-frame callback \<open>animate\<close> of tracking animation \<open>k\<close>.\<close>

definition animate :: "nat \<Rightarrow> real \<Rightarrow> state \<Rightarrow> error + state" where
  "animate k now s =
     (case js_index (trackers s) (int k) of
        None \<Rightarrow> Inr s
      | Some tk \<Rightarrow>
          if \<not> tk_frame tk then Inr s
          else
            (let elapsed = now - tk_startTime tk;
                 progress = js_div elapsed (duration (params (tk_trial tk)))
             in if js_ge_one progress then
                  (let s1 = clearSampleInterval s;
                       accuracy = sampleAccuracy (tk_samples tk);
                       avgDistance = sampleAverageDistance (tk_samples tk);
                       totalPoints = js_round (tk_accumulatedPoints tk);
                       g = getTrackingGrade accuracy;
                       data =
                         \<lparr>td_trialId = ts_id (tk_trial tk), td_instanceId = tk_instanceId tk,
                          td_shape = shape (tk_trial tk),
                          td_duration = duration (params (tk_trial tk)),
                          td_accuracy = accuracy, td_averageDistance = avgDistance,
                          td_points = totalPoints, td_grade = g, td_samples = k\<rparr>
                   in Inr (s1\<lparr>totalScore := totalScore s + totalPoints,
                             trialData := trialData s @ [TrackData data],
                             advanceTimers := advanceTimers s @ [tk_trialIndex tk],
                             trackers := (trackers s1)[k := (trackers s1 ! k)\<lparr>tk_frame := False\<rparr>]\<rparr>))
                else
                  (case getPositionOnPath (shape (tk_trial tk)) (params (tk_trial tk)) progress
                          (fst (canvasSize s)) (snd (canvasSize s)) of
                     Inl e \<Rightarrow> Inl e
                   | Inr newPos \<Rightarrow>
                       Inr (s\<lparr>targetPosition := newPos,
                              trackers := (trackers s)[k := tk\<lparr>tk_lastTargetPos := newPos\<rparr>]\<rparr>))))"

section \<open>Runs\<close>

datatype event =
    PointerDown real real real
  | PointerMove real real
  | PointerUp
  | CountdownTimeout real
  | SampleInterval nat real
  | AnimationFrame nat real
  | AdvanceTimeout real

fun step :: "event \<Rightarrow> state \<Rightarrow> error + state" where
  "step (PointerDown x y now) s = Inr (handlePointerDown x y now s)"
| "step (PointerMove x y) s = Inr (handlePointerMove x y s)"
| "step PointerUp s = Inr (handlePointerUp s)"
| "step (CountdownTimeout now) s = countdownTick now s"
| "step (SampleInterval k now) s = sampleTick k now s"
| "step (AnimationFrame k now) s = animate k now s"
| "step (AdvanceTimeout now) s = nextTrial now s"

text \<open>A run stops at the first event whose handler fails.\<close>

fun run :: "event list \<Rightarrow> state \<Rightarrow> error + state" where
  "run [] s = Inr s"
| "run (e # es) s = (case step e s of Inl err \<Rightarrow> Inl err | Inr s' \<Rightarrow> run es s')"


section \<open>Properties of states and concrete runs\<close>

text \<open>Every tracking animation has accumulated a non-negative number of points.\<close>

definition trackers_ok :: "state \<Rightarrow> bool" where
  "trackers_ok s = list_all (\<lambda>tk. 0 \<le> tk_accumulatedPoints tk) (trackers s)"


text \<open>A random source whose every draw is \<open>r\<close>.\<close>

definition fixedRandom :: "real \<Rightarrow> nat \<Rightarrow> real" where
  "fixedRandom r i = r"

text \<open>The three countdown timeouts that follow \<open>startGame\<close>.\<close>

definition countdownTicks :: "event list" where
  "countdownTicks = [CountdownTimeout 1000, CountdownTimeout 2000, CountdownTimeout 3000]"

text \<open>
  A run on an 800 x 600 canvas in which every draw selects \<open>seq_1\<close>: the countdown, then
  five presses, each exactly on its target 100 ms after the target appeared.
\<close>

definition fiveClicks :: "event list" where
  "fiveClicks =
     countdownTicks @
     [PointerDown 160 180 3100, PointerDown 320 300 3200, PointerDown 480 180 3300,
      PointerDown 640 300 3400, PointerDown 400 420 3500]"

definition afterFifthClick :: state where
  "afterFifthClick = projr (run fiveClicks (startGame TRIAL_CONFIG (fixedRandom 0) initial_state))"



text \<open>The configured catalog with one more click sequence, whose position list is empty.\<close>

definition malformedCatalog :: config where
  "malformedCatalog =
     TRIAL_CONFIG\<lparr>clickSequences :=
       clickSequences TRIAL_CONFIG @ [\<lparr>cs_id = ''seq_empty'', positions = []\<rparr>]\<rparr>"

section \<open>Auxiliary facts\<close>

lemma cfg_simps:
  "targetRadius TRIAL_CONFIG = 40"
  "trackingMaxDistance TRIAL_CONFIG = 80"
  "maxClickPoints (pointSystem TRIAL_CONFIG) = 400"
  "maxReactionTime (pointSystem TRIAL_CONFIG) = 1000"
  "maxPointsPerSample (pointSystem TRIAL_CONFIG) = 5"
  "clickPerfectDist (pointSystem TRIAL_CONFIG) = 10"
  "clickGreatDist (pointSystem TRIAL_CONFIG) = 25"
  "clickPerfectTime (pointSystem TRIAL_CONFIG) = 200"
  "clickGreatTime (pointSystem TRIAL_CONFIG) = 400"
  by (simp_all add: TRIAL_CONFIG_def)

lemmas eval_simps =
  startGame_def initializeTrials_def allTrialTypes_def withStart_def TRIAL_CONFIG_def
  track_line_def track_wave_def track_circle_def track_blob_def track_zigzag_def
  no_params_def initial_state_def fixedRandom_def js_index_def countdownTick_def
  startTrialEffect_def startTrial_def handlePointerDown_def handlePointerUp_def
  handlePointerMove_def startTrackingAnimation_def sampleTick_def animate_def
  clearSampleInterval_def sampleAccuracy_def sampleAverageDistance_def
  getTrackingGrade_def js_div_def getPositionOnPath_def calculateClickPoints_def
  calculateTrackingSamplePoints_def js_round_def Let_def nextTrial_def upt_rec
  countdownTicks_def

lemma js_round_mono: "a \<le> b \<Longrightarrow> js_round a \<le> js_round b"
  by (simp add: js_round_def floor_mono)


lemma click_points_nonneg: "0 \<le> points (calculateClickPoints d rt)"
  by (simp add: calculateClickPoints_def Let_def cfg_simps js_round_def)


subsection \<open>What each handler does to the score\<close>















subsection \<open>The concrete runs\<close>


section \<open>Scoring\<close>



text \<open>
  Claim C5. The points of \<open>calculateClickPoints\<close> are monotonically non-increasing in
  each argument: a larger distance never gives more points at the same reaction time, and
  a larger reaction time never gives more points at the same distance. This includes
  distances on both sides of \<open>targetRadius\<close>, where the miss branch returns 0.
\<close>

theorem calculateClickPoints_antimono:
  "(d1 \<le> d2 \<longrightarrow> points (calculateClickPoints d2 rt) \<le> points (calculateClickPoints d1 rt)) \<and>
   (rt1 \<le> rt2 \<longrightarrow> points (calculateClickPoints d rt2) \<le> points (calculateClickPoints d rt1))"
proof (intro conjI impI)
  assume le: "d1 \<le> d2"
  show "points (calculateClickPoints d2 rt) \<le> points (calculateClickPoints d1 rt)"
  proof (cases "d2 > 40")
    case True
    then have "points (calculateClickPoints d2 rt) = 0"
      by (simp add: calculateClickPoints_def cfg_simps)
    then show ?thesis using click_points_nonneg[of d1 rt] by simp
  next
    case False
    with le have d1: "\<not> d1 > 40" by simp
    have "max 0 (1 - d2 / 40) \<le> max 0 (1 - d1 / 40)" using le by auto
    then have "400 * max 0 (1 - d2 / 40) * max 0 (1 - rt / 1000)
               \<le> 400 * max 0 (1 - d1 / 40) * max 0 (1 - rt / 1000)"
      by (intro mult_right_mono mult_left_mono) auto
    then show ?thesis using False d1
      by (simp add: calculateClickPoints_def Let_def cfg_simps js_round_mono)
  qed
next
  assume le: "rt1 \<le> rt2"
  show "points (calculateClickPoints d rt2) \<le> points (calculateClickPoints d rt1)"
  proof (cases "d > 40")
    case True
    then show ?thesis by (simp add: calculateClickPoints_def cfg_simps)
  next
    case False
    have "max 0 (1 - rt2 / 1000) \<le> max 0 (1 - rt1 / 1000)" using le by auto
    then have "400 * max 0 (1 - d / 40) * max 0 (1 - rt2 / 1000)
               \<le> 400 * max 0 (1 - d / 40) * max 0 (1 - rt1 / 1000)"
      by (intro mult_left_mono) auto
    then show ?thesis using False
      by (simp add: calculateClickPoints_def Let_def cfg_simps js_round_mono)
  qed
qed

text \<open>
  Across the radius: 10 points at distance 39 and none at distance 41. In time: 200
  points at distance 20 and reaction time 0, 100 at reaction time 500.
\<close>

theorem calculateClickPoints_antimono_witness:
  "(39::real) \<le> 41 \<and> points (calculateClickPoints 41 0) \<le> points (calculateClickPoints 39 0) \<and>
   points (calculateClickPoints 39 0) = 10 \<and> points (calculateClickPoints 41 0) = 0 \<and>
   (0::real) \<le> 500 \<and> points (calculateClickPoints 20 500) \<le> points (calculateClickPoints 20 0) \<and>
   points (calculateClickPoints 20 0) = 200 \<and> points (calculateClickPoints 20 500) = 100"
  using calculateClickPoints_antimono[of 39 41 0 0 500 20]
  by (simp add: calculateClickPoints_def Let_def cfg_simps js_round_def)



text \<open>
  Claim C10. At a distance equal to \<open>targetRadius\<close> the miss branch is not taken: for
  every reaction time the points are 0, because the accuracy factor is 0 there, and the
  grade is \<open>OK\<close>, not \<open>MISS\<close>.
\<close>

theorem calculateClickPoints_at_radius:
  "points (calculateClickPoints (targetRadius TRIAL_CONFIG) rt) = 0 \<and>
   accuracyFactor (calculateClickPoints (targetRadius TRIAL_CONFIG) rt) = 0 \<and>
   grade (calculateClickPoints (targetRadius TRIAL_CONFIG) rt) = ''OK'' \<and>
   grade (calculateClickPoints (targetRadius TRIAL_CONFIG) rt) \<noteq> ''MISS''"
  by (simp add: calculateClickPoints_def cfg_simps js_round_def)

theorem calculateClickPoints_at_radius_witness:
  "points (calculateClickPoints 40 0) = 0 \<and> grade (calculateClickPoints 40 0) = ''OK''"
  using calculateClickPoints_at_radius[of 0]
  by (simp add: cfg_simps)

section \<open>Path positions\<close>

text \<open>Each configured shape at progress 0, on the parameters its trial carries.\<close>

lemma start_line:
  "getPositionOnPath (shape track_line) (params (withStart track_line)) (Fin 0) w h
     = Inr (ts_startX track_line * w, ts_startY track_line * h)"
  by (simp add: track_line_def withStart_def no_params_def getPositionOnPath_def)

lemma start_wave:
  "getPositionOnPath (shape track_wave) (params (withStart track_wave)) (Fin 0) w h
     = Inr (ts_startX track_wave * w, ts_startY track_wave * h)"
  by (simp add: track_wave_def withStart_def no_params_def getPositionOnPath_def)

lemma start_circle:
  "getPositionOnPath (shape track_circle) (params (withStart track_circle)) (Fin 0) w h
     = Inr (ts_startX track_circle * w, ts_startY track_circle * h)"
  by (simp add: track_circle_def withStart_def no_params_def getPositionOnPath_def)

lemma start_blob:
  "getPositionOnPath (shape track_blob) (params (withStart track_blob)) (Fin 0) w h
     = Inr (ts_startX track_blob * w, ts_startY track_blob * h)"
  by (simp add: track_blob_def withStart_def no_params_def getPositionOnPath_def
                polyline_position_def js_index_def catmullRom_def)

lemma start_zigzag:
  "getPositionOnPath (shape track_zigzag) (params (withStart track_zigzag)) (Fin 0) w h
     = Inr (ts_startX track_zigzag * w, ts_startY track_zigzag * h)"
  by (simp add: track_zigzag_def withStart_def no_params_def getPositionOnPath_def
                polyline_position_def js_index_def)

text \<open>
  Claim C4. For every track shape of the configured catalog (line, wave, circle, blob,
  zigzag) and every positive canvas width \<open>w\<close> and height \<open>h\<close>, \<open>getPositionOnPath\<close> at
  progress 0, on the parameters the trial carries, is the declared start position
  \<open>(startX * w, startY * h)\<close>.
\<close>

theorem getPositionOnPath_start:
  "\<forall>ts \<in> set (trackShapes TRIAL_CONFIG).
     Track (withStart ts) \<in> set (allTrialTypes TRIAL_CONFIG) \<and>
     (\<forall>w h. 0 < w \<and> 0 < h \<longrightarrow>
        getPositionOnPath (shape (withStart ts)) (params (withStart ts)) (Fin 0) w h
          = Inr (ts_startX ts * w, ts_startY ts * h))"
proof
  fix ts
  assume ts: "ts \<in> set (trackShapes TRIAL_CONFIG)"
  then have "Track (withStart ts) \<in> set (allTrialTypes TRIAL_CONFIG)"
    by (simp add: allTrialTypes_def)
  moreover have "shape (withStart ts) = shape ts"
    by (simp add: withStart_def)
  moreover have "getPositionOnPath (shape ts) (params (withStart ts)) (Fin 0) w h
          = Inr (ts_startX ts * w, ts_startY ts * h)" for w h
    using ts start_line start_wave start_circle start_blob start_zigzag
    by (auto simp: TRIAL_CONFIG_def)
  ultimately show "Track (withStart ts) \<in> set (allTrialTypes TRIAL_CONFIG) \<and>
     (\<forall>w h. 0 < w \<and> 0 < h \<longrightarrow>
        getPositionOnPath (shape (withStart ts)) (params (withStart ts)) (Fin 0) w h
          = Inr (ts_startX ts * w, ts_startY ts * h))"
    by simp
qed

text \<open>The circle on an 800 x 600 canvas starts at its top, (400, 150).\<close>

theorem getPositionOnPath_start_witness:
  "track_circle \<in> set (trackShapes TRIAL_CONFIG) \<and> (0::real) < 800 \<and> (0::real) < 600 \<and>
   getPositionOnPath ''circle'' (params (withStart track_circle)) (Fin 0) 800 600 = Inr (400, 150)"
proof -
  have m: "track_circle \<in> set (trackShapes TRIAL_CONFIG)"
    by (simp add: TRIAL_CONFIG_def)
  have "getPositionOnPath (shape (withStart track_circle)) (params (withStart track_circle))
          (Fin 0) 800 600 = Inr (ts_startX track_circle * 800, ts_startY track_circle * 600)"
    using getPositionOnPath_start[rule_format, OF m, THEN conjunct2, rule_format, of 800 600]
    by simp
  then show ?thesis using m by (simp add: withStart_def track_circle_def)
qed

text \<open>
  Claim C9. For every shape name other than line, wave, circle, blob and zigzag, and for
  every progress value (also a non-finite one), every parameter object and every canvas
  size, \<open>getPositionOnPath\<close> returns the canvas centre and does not fail.
\<close>

theorem getPositionOnPath_default:
  "shp \<notin> {''line'', ''wave'', ''circle'', ''blob'', ''zigzag''} \<Longrightarrow>
     getPositionOnPath shp ps progress w h = Inr (w / 2, h / 2)"
  by (simp add: getPositionOnPath_def)

theorem getPositionOnPath_default_witness:
  "''spiral'' \<notin> {''line'', ''wave'', ''circle'', ''blob'', ''zigzag''} \<and>
   getPositionOnPath ''spiral'' no_params NaN 800 600 = Inr (400, 300)"
proof -
  have h: "''spiral'' \<notin> {''line'', ''wave'', ''circle'', ''blob'', ''zigzag''}" by simp
  show ?thesis using h getPositionOnPath_default[OF h, of no_params NaN 800 600] by simp
qed

section \<open>Tracking completion\<close>



section \<open>The total score\<close>

lemma trackers_ok_new_game: "trackers_ok (startGame cfg random initial_state)"
  by (simp add: trackers_ok_def startGame_def initializeTrials_def initial_state_def)



section \<open>Run initialization\<close>

text \<open>
  Claim C3, as stated: a catalog with a malformed trial definition makes run
  initialization fail before any trial starts. It does not. The catalog
  \<open>malformedCatalog\<close> has a click sequence with no positions. When every draw selects
  \<open>seq_1\<close> the run is initialized, counts down and is in its first trial, with the target
  shown; when every draw selects the empty sequence the run is initialized with 20 trials
  all the same, counts down, and fails only when the first trial starts.
\<close>

theorem initializeTrials_rejects_counterexample:
  "positions (last (clickSequences malformedCatalog)) = [] \<and>
   gameState (startGame malformedCatalog (fixedRandom 0) initial_state) = Countdown \<and>
   length (trials (startGame malformedCatalog (fixedRandom 0) initial_state)) = 20 \<and>
   map_sum id gameState
     (run countdownTicks (startGame malformedCatalog (fixedRandom 0) initial_state)) = Inr Playing \<and>
   map_sum id targetPosition
     (run countdownTicks (startGame malformedCatalog (fixedRandom 0) initial_state)) = Inr (160, 180) \<and>
   gameState (startGame malformedCatalog (fixedRandom 0.5) initial_state) = Countdown \<and>
   length (trials (startGame malformedCatalog (fixedRandom 0.5) initial_state)) = 20 \<and>
   set (map entry (trials (startGame malformedCatalog (fixedRandom 0.5) initial_state)))
     = {Some (ClickSequence \<lparr>cs_id = ''seq_empty'', positions = []\<rparr>)} \<and>
   run (take 2 countdownTicks) (startGame malformedCatalog (fixedRandom 0.5) initial_state)
     = Inr ((startGame malformedCatalog (fixedRandom 0.5) initial_state)\<lparr>countdown := 1\<rparr>) \<and>
   run countdownTicks (startGame malformedCatalog (fixedRandom 0.5) initial_state) = Inl TypeError"
  by (simp add: malformedCatalog_def eval_simps)

text \<open>
  Claim C3, amended. Run initialization validates nothing: for every catalog, every
  random source and every state it succeeds, selects \<open>totalTrials\<close> instances numbered
  from 0, each the catalog entry at its drawn index, resets the trial index, the trial
  data and the total score, and the game goes to the countdown. A click sequence with an
  empty position list is detected only when its trial starts, which then fails.
\<close>

theorem initializeTrials_no_validation:
  "gameState (startGame cfg random s) = Countdown \<and>
   trials (startGame cfg random s) = trials (initializeTrials cfg random s) \<and>
   length (trials (initializeTrials cfg random s)) = totalTrials cfg \<and>
   currentTrialIndex (initializeTrials cfg random s) = 0 \<and>
   trialData (initializeTrials cfg random s) = [] \<and>
   totalScore (initializeTrials cfg random s) = 0 \<and>
   (\<forall>i < totalTrials cfg.
      instanceId (trials (initializeTrials cfg random s) ! i) = i \<and>
      entry (trials (initializeTrials cfg random s) ! i)
        = js_index (allTrialTypes cfg) \<lfloor>random i * real (length (allTrialTypes cfg))\<rfloor>) \<and>
   (js_index (trials s2) (int (currentTrialIndex s2)) = Some tr \<and>
    entry tr = Some (ClickSequence cs) \<and> positions cs = []
      \<longrightarrow> startTrial now s2 = Inl TypeError)"
  by (simp add: startGame_def initializeTrials_def Let_def startTrial_def)

theorem initializeTrials_no_validation_witness:
  "gameState (startGame malformedCatalog (fixedRandom 0.5) initial_state) = Countdown \<and>
   length (trials (initializeTrials malformedCatalog (fixedRandom 0.5) initial_state)) = 20 \<and>
   (7::nat) < totalTrials malformedCatalog \<and>
   instanceId (trials (initializeTrials malformedCatalog (fixedRandom 0.5) initial_state) ! 7) = 7 \<and>
   js_index (trials (initializeTrials malformedCatalog (fixedRandom 0.5) initial_state))
            (int (currentTrialIndex (initializeTrials malformedCatalog (fixedRandom 0.5) initial_state)))
     = Some \<lparr>entry = Some (ClickSequence \<lparr>cs_id = ''seq_empty'', positions = []\<rparr>), instanceId = 0\<rparr> \<and>
   startTrial 3000 (initializeTrials malformedCatalog (fixedRandom 0.5) initial_state) = Inl TypeError"
proof -
  have h: "js_index (trials (initializeTrials malformedCatalog (fixedRandom 0.5) initial_state))
            (int (currentTrialIndex (initializeTrials malformedCatalog (fixedRandom 0.5) initial_state)))
     = Some \<lparr>entry = Some (ClickSequence \<lparr>cs_id = ''seq_empty'', positions = []\<rparr>), instanceId = 0\<rparr>"
    by (simp add: malformedCatalog_def eval_simps)
  have t: "totalTrials malformedCatalog = 20"
    by (simp add: malformedCatalog_def TRIAL_CONFIG_def)
  show ?thesis
    using initializeTrials_no_validation[of malformedCatalog "fixedRandom 0.5" initial_state
        "initializeTrials malformedCatalog (fixedRandom 0.5) initial_state"
        "\<lparr>entry = Some (ClickSequence \<lparr>cs_id = ''seq_empty'', positions = []\<rparr>), instanceId = 0\<rparr>"
        "\<lparr>cs_id = ''seq_empty'', positions = []\<rparr>" 3000] h t
    by simp
qed

section \<open>Presses after the trial advance was scheduled\<close>

text \<open>
  Claim C1 says that a press arriving after the current trial has scheduled its advance
  is ignored. In a click-sequence trial it is not. After the fifth click of the first
  trial of the run \<open>fiveClicks\<close> the game is still playing, the click index is still 4 and
  one advance is pending. A sixth press, 50 ms later, is scored like a click: a sixth
  record is appended, the total score goes from 1800 to 2140, and a second advance is
  scheduled. The two advances then move the run to trial 2, so that trial 1 is never
  played; without the sixth press the run moves to trial 1.
\<close>

theorem late_press_is_scored:
  "run fiveClicks (startGame TRIAL_CONFIG (fixedRandom 0) initial_state) = Inr afterFifthClick \<and>
   gameState afterFifthClick = Playing \<and>
   currentTrialIndex afterFifthClick = 0 \<and>
   currentClickIndex afterFifthClick = 4 \<and>
   advanceTimers afterFifthClick = [0] \<and>
   length (trialData afterFifthClick) = 5 \<and>
   totalScore afterFifthClick = 1800 \<and>
   length (trialData (handlePointerDown 400 420 3550 afterFifthClick)) = 6 \<and>
   totalScore (handlePointerDown 400 420 3550 afterFifthClick) = 2140 \<and>
   advanceTimers (handlePointerDown 400 420 3550 afterFifthClick) = [0, 0] \<and>
   map_sum id currentTrialIndex
     (run [PointerDown 400 420 3550, AdvanceTimeout 3600, AdvanceTimeout 3650] afterFifthClick)
     = Inr 2 \<and>
   map_sum id currentTrialIndex (run [AdvanceTimeout 3600] afterFifthClick) = Inr 1"
  by (simp add: afterFifthClick_def fiveClicks_def eval_simps)

text \<open>
  The same holds in every playing state whose current trial is a click sequence at its
  last click index: a press appends a record and schedules one more advance.
\<close>

lemma late_press_in_click_sequence:
  "gameState s = Playing \<Longrightarrow> js_index (trials s) (int (currentTrialIndex s)) = Some tr \<Longrightarrow>
   entry tr = Some (ClickSequence cs) \<Longrightarrow>
   \<not> int (currentClickIndex s) < int (length (positions cs)) - 1 \<Longrightarrow>
   length (trialData (handlePointerDown x y now s)) = length (trialData s) + 1 \<and>
   advanceTimers (handlePointerDown x y now s) = advanceTimers s @ [currentTrialIndex s]"
  by (simp add: handlePointerDown_def Let_def)

text \<open>
  In a tracking trial the guard on \<open>trackingStarted\<close> does make such a press a no-op for
  the score, the trial data and the pending advances.
\<close>

lemma late_press_in_tracking_ignored:
  "gameState s = Playing \<Longrightarrow> js_index (trials s) (int (currentTrialIndex s)) = Some tr \<Longrightarrow>
   entry tr = Some (Track ts) \<Longrightarrow> trackingStarted s \<Longrightarrow>
   handlePointerDown x y now s = s\<lparr>isClickingRef := True\<rparr>"
  by (simp add: handlePointerDown_def)

end
